theory Spec2Isabelle
  imports Complex_Main "HOL-Library.Sublist"
begin

section \<open>Data model of \<open>script.py\<close>\<close>

text \<open>
  Python dictionaries keep insertion order, and \<open>save_to_csv\<close> reads the key order of
  the first product, so a dictionary is an association list: \<open>d[k] = v\<close> replaces the value
  of an existing key in place and appends a new key at the end.
\<close>

type_synonym ('k, 'v) pydict = "('k \<times> 'v) list"

fun dict_set :: "('k, 'v) pydict \<Rightarrow> 'k \<Rightarrow> 'v \<Rightarrow> ('k, 'v) pydict" where
  "dict_set [] k v = [(k, v)]"
| "dict_set ((k', v') # d) k v =
     (if k' = k then (k, v) # d else (k', v') # dict_set d k v)"

definition dict_get :: "('k, 'v) pydict \<Rightarrow> 'k \<Rightarrow> 'v option" where
  "dict_get d k = map_of d k"

definition keys :: "('k, 'v) pydict \<Rightarrow> 'k list" where
  "keys d = map fst d"

text \<open>A scraped product: field name to field text.\<close>

type_synonym product = "(string, string) pydict"

text \<open>
  The parsed page is the library's (BeautifulSoup's) data. An element is modelled by what
  the scraper reads from it: the text \<open>get_text(strip=True)\<close> returns and its attribute
  dictionary. A listing node (\<open>item\<close>) is modelled by the answers of its \<open>find\<close> queries:
  \<open>find_elem item tag attrs\<close> is \<open>item.find(tag, attrs)\<close> (\<open>None\<close> when nothing
  matches), and \<open>find_span_string\<close> is the one query with a predicate on the string,
  \<open>item.find('span', string=lambda x: x and ('New' in x or 'Used' in x or 'Pre-Owned' in x))\<close>.
  A found element is truthy in Python whatever its contents.
\<close>

record element =
  get_text :: string
  attrs :: "(string, string) pydict"

record item =
  find_elem :: "string \<Rightarrow> (string \<times> string) list \<Rightarrow> element option"
  find_span_string :: "element option"

text \<open>Python's \<open>a or b\<close> on the results of \<open>find\<close>.\<close>

definition or_else :: "'a option \<Rightarrow> 'a option \<Rightarrow> 'a option" where
  "or_else a b = (case a of Some x \<Rightarrow> Some x | None \<Rightarrow> b)"

section \<open>\<open>EbayScraper._extract_product_data\<close>\<close>

text \<open>The three title selectors, tried in the source's order.\<close>

definition title_elem :: "item \<Rightarrow> element option" where
  "title_elem item =
     or_else (find_elem item ''span'' [(''role'', ''heading'')])
       (or_else (find_elem item ''div'' [(''class'', ''s-item__title'')])
                (find_elem item ''h3'' [(''class'', ''s-item__title'')]))"

definition rejected_titles :: "string list" where
  "rejected_titles = [''Shop on eBay'', ''New Listing'', '''']"

text \<open>
  The title block: \<open>None\<close> is the source's \<open>return None\<close>, \<open>Some product\<close> the
  dictionary the function goes on with.
\<close>

definition extract_title :: "string list \<Rightarrow> item \<Rightarrow> product \<Rightarrow> product option" where
  "extract_title selected_fields item product =
     (if ''title'' \<in> set selected_fields then
        (case title_elem item of
           Some title_elem' \<Rightarrow>
             (let title = get_text title_elem' in
              if title \<in> set rejected_titles then None
              else Some (dict_set product ''title'' title))
         | None \<Rightarrow> None)
      else Some product)"

definition text_or :: "element option \<Rightarrow> string \<Rightarrow> string" where
  "text_or elem dflt = (case elem of Some e \<Rightarrow> get_text e | None \<Rightarrow> dflt)"

definition extract_price :: "string list \<Rightarrow> item \<Rightarrow> product \<Rightarrow> product" where
  "extract_price selected_fields item product =
     (if ''price'' \<in> set selected_fields then
        dict_set product ''price''
          (text_or (find_elem item ''span'' [(''class'', ''s-item__price'')]) ''N/A'')
      else product)"

definition condition_elem :: "item \<Rightarrow> element option" where
  "condition_elem item =
     or_else (find_elem item ''span'' [(''class'', ''SECONDARY_INFO'')]) (find_span_string item)"

definition extract_condition :: "string list \<Rightarrow> item \<Rightarrow> product \<Rightarrow> product" where
  "extract_condition selected_fields item product =
     (if ''condition'' \<in> set selected_fields then
        dict_set product ''condition'' (text_or (condition_elem item) ''N/A'')
      else product)"

definition shipping_elem :: "item \<Rightarrow> element option" where
  "shipping_elem item =
     or_else (find_elem item ''span'' [(''class'', ''s-item__shipping'')])
             (find_elem item ''span'' [(''class'', ''s-item__logisticsCost'')])"

definition extract_shipping :: "string list \<Rightarrow> item \<Rightarrow> product \<Rightarrow> product" where
  "extract_shipping selected_fields item product =
     (if ''shipping'' \<in> set selected_fields then
        dict_set product ''shipping'' (text_or (shipping_elem item) ''N/A'')
      else product)"

text \<open>\<open>a_tag['href'] if a_tag and 'href' in a_tag.attrs else 'N/A'\<close>\<close>

definition url_value :: "item \<Rightarrow> string" where
  "url_value item =
     (case find_elem item ''a'' [(''class'', ''s-item__link'')] of
        Some a_tag \<Rightarrow>
          (case dict_get (attrs a_tag) ''href'' of Some href \<Rightarrow> href | None \<Rightarrow> ''N/A'')
      | None \<Rightarrow> ''N/A'')"

definition extract_url :: "string list \<Rightarrow> item \<Rightarrow> product \<Rightarrow> product" where
  "extract_url selected_fields item product =
     (if ''url'' \<in> set selected_fields then dict_set product ''url'' (url_value item)
      else product)"

definition location_elem :: "item \<Rightarrow> element option" where
  "location_elem item =
     or_else (find_elem item ''span'' [(''class'', ''s-item__location'')])
             (find_elem item ''span'' [(''class'', ''s-item__itemLocation'')])"

definition extract_location :: "string list \<Rightarrow> item \<Rightarrow> product \<Rightarrow> product" where
  "extract_location selected_fields item product =
     (if ''location'' \<in> set selected_fields then
        dict_set product ''location'' (text_or (location_elem item) ''N/A'')
      else product)"

text \<open>\<open>img_tag.get('src', img_tag.get('data-src', 'N/A'))\<close>, or \<open>'N/A'\<close> without an image.\<close>

definition image_url_value :: "item \<Rightarrow> string" where
  "image_url_value item =
     (case find_elem item ''img'' [] of
        Some img_tag \<Rightarrow>
          (case dict_get (attrs img_tag) ''src'' of
             Some src \<Rightarrow> src
           | None \<Rightarrow>
               (case dict_get (attrs img_tag) ''data-src'' of
                  Some src \<Rightarrow> src
                | None \<Rightarrow> ''N/A''))
      | None \<Rightarrow> ''N/A'')"

definition extract_image_url :: "string list \<Rightarrow> item \<Rightarrow> product \<Rightarrow> product" where
  "extract_image_url selected_fields item product =
     (if ''image_url'' \<in> set selected_fields then
        dict_set product ''image_url'' (image_url_value item)
      else product)"

definition extract_sold_count :: "string list \<Rightarrow> item \<Rightarrow> product \<Rightarrow> product" where
  "extract_sold_count selected_fields item product =
     (if ''sold_count'' \<in> set selected_fields then
        dict_set product ''sold_count''
          (text_or (find_elem item ''span'' [(''class'', ''s-item__quantitySold'')]) ''0'')
      else product)"

text \<open>
  The blocks after the title, in the source's order (price, condition, shipping, url,
  location, image url, sold count), then the time stamp. \<open>now\<close> is the text of
  \<open>datetime.now().strftime(...)\<close> at this call.
\<close>

definition extract_fields :: "string list \<Rightarrow> string \<Rightarrow> item \<Rightarrow> product \<Rightarrow> product" where
  "extract_fields selected_fields now item product =
     dict_set
       (extract_sold_count selected_fields item
         (extract_image_url selected_fields item
           (extract_location selected_fields item
             (extract_url selected_fields item
               (extract_shipping selected_fields item
                 (extract_condition selected_fields item
                   (extract_price selected_fields item product)))))))
       ''scraped_at'' now"

text \<open>
  The whole function. None of the modelled operations raises, so the handler
  \<open>except Exception: return None\<close> adds no branch: the result is a product or \<open>None\<close>.
\<close>

definition extract_product_data :: "string list \<Rightarrow> string \<Rightarrow> item \<Rightarrow> product option" where
  "extract_product_data selected_fields now item =
     (case extract_title selected_fields item [] of
        None \<Rightarrow> None
      | Some product \<Rightarrow>
          (let product' = extract_fields selected_fields now item product in
           if length product' > 1 then Some product' else None))"

section \<open>Python strings\<close>

text \<open>
  A Python \<open>str\<close> is modelled as the list of the bytes of its UTF-8 encoding, so an ASCII
  character is one \<open>char\<close> and the pound and euro signs are two and three. In well-formed
  UTF-8 the bytes of whole characters occur in a text at character boundaries only, so
  \<open>in\<close>, \<open>replace\<close> and \<open>split\<close> on the bytes are those on the characters. Case mapping
  and white space follow the tables of Unicode: \<open>str.lower\<close> and \<open>str.strip\<close> are the
  language's, and the functions that call them take them as parameters.
\<close>

text \<open>\<open>sub in s\<close> on strings: \<open>sub\<close> occurs in \<open>s\<close> as a contiguous piece.\<close>

definition py_in :: "string \<Rightarrow> string \<Rightarrow> bool" where
  "py_in sub s = sublist sub s"

text \<open>\<open>s.replace(old, '')\<close> for a non-empty \<open>old\<close>: occurrences are removed left to right.\<close>

function remove_all :: "string \<Rightarrow> string \<Rightarrow> string" where
  "remove_all old [] = []"
| "remove_all old (c # cs) =
     (if old \<noteq> [] \<and> prefix old (c # cs) then remove_all old (drop (length old) (c # cs))
      else c # remove_all old cs)"
  by pat_completeness auto
termination
  by (relation "measure (\<lambda>(old, s). length s)") auto

text \<open>\<open>s.split(sep)[0]\<close> for a non-empty \<open>sep\<close>: the text before the first \<open>sep\<close>.\<close>

fun split_first :: "string \<Rightarrow> string \<Rightarrow> string" where
  "split_first sep [] = []"
| "split_first sep (c # cs) = (if prefix sep (c # cs) then [] else c # split_first sep cs)"

section \<open>Python floats\<close>

text \<open>
  A float value is the rational that a finite binary64 number denotes (the two zeros
  taken as one), an infinity, or not-a-number. Comparison of floats is exact.
\<close>

datatype pyfloat = Fin rat | PInf | NInf | NaN

fun py_lt :: "pyfloat \<Rightarrow> pyfloat \<Rightarrow> bool" where
  "py_lt (Fin a) (Fin b) = (a < b)"
| "py_lt NaN y = False"
| "py_lt x NaN = False"
| "py_lt x NInf = False"
| "py_lt PInf y = False"
| "py_lt NInf y = True"
| "py_lt (Fin a) PInf = True"

text \<open>
  \<open>min\<close> and \<open>max\<close> keep the first item and replace it by a later one that is smaller
  (larger). They are called on non-empty lists only; the model gives 0 on the empty one.
\<close>

definition py_min :: "pyfloat list \<Rightarrow> pyfloat" where
  "py_min xs = (case xs of [] \<Rightarrow> Fin 0 | x # r \<Rightarrow> foldl (\<lambda>m y. if py_lt y m then y else m) x r)"

definition py_max :: "pyfloat list \<Rightarrow> pyfloat" where
  "py_max xs = (case xs of [] \<Rightarrow> Fin 0 | x # r \<Rightarrow> foldl (\<lambda>m y. if py_lt m y then y else m) x r)"

text \<open>
  Reading a text as a float, and the sum and the division of floats, which round, are
  the language's; so is \<open>str.strip\<close>. \<open>display_summary\<close> takes them as they are:
  \<open>str_strip py s\<close> is \<open>s.strip()\<close>, \<open>float_of py s\<close> is \<open>float(s)\<close> with \<open>None\<close> for
  its \<open>ValueError\<close>, \<open>sum_of py xs\<close> is \<open>sum(xs)\<close>, and \<open>div_of py x n\<close> is \<open>x / n\<close> for
  the length \<open>n\<close> of a list.
\<close>

record python =
  str_strip :: "string \<Rightarrow> string"
  float_of :: "string \<Rightarrow> pyfloat option"
  sum_of :: "pyfloat list \<Rightarrow> pyfloat"
  div_of :: "pyfloat \<Rightarrow> nat \<Rightarrow> pyfloat"

section \<open>\<open>EbayScraper.filter_by_condition\<close>\<close>

text \<open>\<open>d.get(k, dflt)\<close>\<close>

definition dict_get_default :: "('k, 'v) pydict \<Rightarrow> 'k \<Rightarrow> 'v \<Rightarrow> 'v" where
  "dict_get_default d k dflt = (case dict_get d k of Some v \<Rightarrow> v | None \<Rightarrow> dflt)"

text \<open>
  The loop over \<open>products\<close>, for a condition that is not empty; \<open>lower s\<close> is
  \<open>s.lower()\<close>.
\<close>

fun filter_loop :: "(string \<Rightarrow> string) \<Rightarrow> string \<Rightarrow> product list \<Rightarrow> product list" where
  "filter_loop lower condition [] = []"
| "filter_loop lower condition (product # products) =
     (let prod_condition = lower (dict_get_default product ''condition'' [])
      in if py_in (lower condition) prod_condition
         then product # filter_loop lower condition products
         else filter_loop lower condition products)"

text \<open>\<open>condition\<close> is \<open>None\<close> or a string; \<open>not condition\<close> holds for \<open>None\<close> and for \<open>''\<close>.\<close>

definition filter_by_condition ::
  "(string \<Rightarrow> string) \<Rightarrow> product list \<Rightarrow> string option \<Rightarrow> product list" where
  "filter_by_condition lower products condition =
     (case condition of
        None \<Rightarrow> products
      | Some c \<Rightarrow> if c = [] then products else filter_loop lower c products)"

section \<open>The price statistic of \<open>EbayScraper.display_summary\<close>\<close>

definition pound :: string where
  "pound = [CHR 0xC2, CHR 0xA3]"

definition euro :: string where
  "euro = [CHR 0xE2, CHR 0x82, CHR 0xAC]"

definition clean_price :: "string \<Rightarrow> string" where
  "clean_price s = remove_all euro (remove_all pound (remove_all '','' (remove_all ''$'' s)))"

text \<open>
  The text that the \<open>try\<close> hands to \<open>float\<close> for one product's price text, and the
  result: \<open>None\<close> is the \<open>ValueError\<close> that the handler turns into \<open>continue\<close>.
\<close>

definition number_text :: "python \<Rightarrow> string \<Rightarrow> string" where
  "number_text py price =
     (let price_str = clean_price price
      in if py_in ''to'' price_str then str_strip py (split_first ''to'' price_str)
         else price_str)"

definition parse_price :: "python \<Rightarrow> string \<Rightarrow> pyfloat option" where
  "parse_price py price = float_of py (number_text py price)"

fun collect_prices :: "python \<Rightarrow> product list \<Rightarrow> pyfloat list" where
  "collect_prices py [] = []"
| "collect_prices py (product # products) =
     (case parse_price py (dict_get_default product ''price'' []) of
        Some price \<Rightarrow> price # collect_prices py products
      | None \<Rightarrow> collect_prices py products)"

text \<open>
  What \<open>display_summary\<close> prints about prices: the average, the minimum and the maximum
  (before their formatting with two decimals), or nothing.
\<close>

definition price_statistics ::
  "python \<Rightarrow> string list \<Rightarrow> product list \<Rightarrow> (pyfloat \<times> pyfloat \<times> pyfloat) option" where
  "price_statistics py selected_fields products =
     (if ''price'' \<in> set selected_fields \<and> products \<noteq> [] then
        (let prices = collect_prices py products
         in if prices \<noteq> [] then
              Some (div_of py (sum_of py prices) (length prices), py_min prices, py_max prices)
            else None)
      else None)"

section \<open>\<open>EbayScraper._scrape_page\<close>\<close>

text \<open>
  The answer to one \<open>session.get\<close>: the call raises a \<open>RequestException\<close>, or returns a
  response with a status code and a body, modelled by the document the parser reads from it.
  A document answers \<open>soup.find_all(tag, attrs)\<close>.
\<close>

record document =
  find_all :: "string \<Rightarrow> (string \<times> string) list \<Rightarrow> item list"

record response =
  status_code :: nat
  soup :: document

datatype get_result = RequestException | Response response

text \<open>\<open>response.raise_for_status()\<close> raises an \<open>HTTPError\<close> on the statuses 400 to 599.\<close>

definition raises_for_status :: "response \<Rightarrow> bool" where
  "raises_for_status r = (400 \<le> status_code r \<and> status_code r < 600)"

text \<open>
  The loop over the item containers; \<open>clock idx\<close> is the time stamp of item \<open>idx\<close>.
\<close>

fun extract_items :: "string list \<Rightarrow> (nat \<Rightarrow> string) \<Rightarrow> nat \<Rightarrow> item list \<Rightarrow> product list" where
  "extract_items selected_fields clock idx [] = []"
| "extract_items selected_fields clock idx (item # items) =
     (case extract_product_data selected_fields (clock idx) item of
        Some product \<Rightarrow>
          (if product \<noteq> [] then [product] else [])
            @ extract_items selected_fields clock (Suc idx) items
      | None \<Rightarrow> extract_items selected_fields clock (Suc idx) items)"

text \<open>
  One page, from the answer to its request. Both handlers return the empty list; the
  \<open>HTTPError\<close> of \<open>raise_for_status\<close> is a \<open>RequestException\<close>.
\<close>

definition scrape_page :: "string list \<Rightarrow> (nat \<Rightarrow> string) \<Rightarrow> get_result \<Rightarrow> product list" where
  "scrape_page selected_fields clock answer =
     (case answer of
        RequestException \<Rightarrow> []
      | Response r \<Rightarrow>
          if raises_for_status r then []
          else (let items = find_all (soup r) ''li'' [(''class'', ''s-item'')];
                    items' = (if items = []
                              then find_all (soup r) ''div'' [(''class'', ''s-item__wrapper'')]
                              else items)
                in extract_items selected_fields clock 0 items'))"

section \<open>\<open>EbayScraper.search\<close>\<close>

text \<open>The values of the query parameters, and Python's truth value of each.\<close>

datatype pyval = PyStr string | PyInt int | PyFloat pyfloat

fun truthy :: "pyval \<Rightarrow> bool" where
  "truthy (PyStr s) = (s \<noteq> [])"
| "truthy (PyInt i) = (i \<noteq> 0)"
| "truthy (PyFloat f) = (f \<noteq> Fin 0)"

definition base_url :: string where
  "base_url = ''https://www.ebay.com/sch/i.html''"

definition sort_options :: "(string, int) pydict" where
  "sort_options =
     [(''best_match'', 12), (''price_low'', 15), (''price_high'', 16), (''newest'', 10)]"

text \<open>A price bound is \<open>None\<close> or a value; \<open>if min_price:\<close> is false for \<open>None\<close> too.\<close>

definition add_bound ::
  "string \<Rightarrow> pyval option \<Rightarrow> (string, pyval) pydict \<Rightarrow> (string, pyval) pydict" where
  "add_bound key bound params =
     (case bound of
        Some v \<Rightarrow> if truthy v then dict_set params key v else params
      | None \<Rightarrow> params)"

definition search_params ::
  "string \<Rightarrow> string \<Rightarrow> pyval option \<Rightarrow> pyval option \<Rightarrow> (string, pyval) pydict" where
  "search_params query sort_by min_price max_price =
     add_bound ''_udhi'' max_price
       (add_bound ''_udlo'' min_price
          [(''_nkw'', PyStr query),
           (''_sop'', PyInt (dict_get_default sort_options sort_by 12)),
           (''_ipg'', PyInt 60)])"

text \<open>
  The scraper's own settings, and the world outside it: \<open>urlencode\<close> is the library's,
  \<open>session_get page url\<close> is the answer to the request the loop sends for that page, and
  \<open>timestamp page idx\<close> the time stamp when item \<open>idx\<close> of that page is extracted.
\<close>

record scraper =
  selected_fields :: "string list"
  debug_mode :: bool

record world =
  urlencode :: "(string, pyval) pydict \<Rightarrow> string"
  session_get :: "nat \<Rightarrow> string \<Rightarrow> get_result"
  timestamp :: "nat \<Rightarrow> nat \<Rightarrow> string"

text \<open>
  What a run does besides returning the products, in order: the request of a page, the
  warning printed when the first page is empty, the second request of the diagnosis (in
  debug mode), and the pause after a page.
\<close>

datatype event = Fetch nat string | Warning | Diagnose string | Sleep

record run =
  all_products :: "product list"
  trace :: "event list"

definition page_products :: "scraper \<Rightarrow> world \<Rightarrow> nat \<Rightarrow> string \<Rightarrow> product list" where
  "page_products self w page url =
     scrape_page (selected_fields self) (timestamp w page) (session_get w page url)"

text \<open>
  The loop \<open>for page in range(1, max_pages + 1)\<close>, with the pages still to come counted
  down; \<open>params\<close> is the dictionary the loop writes \<open>_pgn\<close> into.
\<close>

fun search_loop ::
  "scraper \<Rightarrow> world \<Rightarrow> (string, pyval) pydict \<Rightarrow> nat \<Rightarrow> nat \<Rightarrow> run \<Rightarrow> run" where
  "search_loop self w params page 0 r = r"
| "search_loop self w params page (Suc n) r =
     (let params' = dict_set params ''_pgn'' (PyInt (int page));
          url = base_url @ ''?'' @ urlencode w params';
          products = page_products self w page url;
          r' = \<lparr>all_products = all_products r @ products,
                trace = trace r @ [Fetch page url]\<rparr>
      in if products = [] \<and> page = 1 then
           r'\<lparr>trace := trace r' @ [Warning] @ (if debug_mode self then [Diagnose url] else [])\<rparr>
         else search_loop self w params' (Suc page) n (r'\<lparr>trace := trace r' @ [Sleep]\<rparr>))"

definition search ::
  "scraper \<Rightarrow> world \<Rightarrow> string \<Rightarrow> int \<Rightarrow> string \<Rightarrow> pyval option \<Rightarrow> pyval option \<Rightarrow> run" where
  "search self w query max_pages sort_by min_price max_price =
     search_loop self w (search_params query sort_by min_price max_price) 1 (nat max_pages)
       \<lparr>all_products = [], trace = []\<rparr>"

text \<open>The pages a run requested, in order, and whether it printed the warning.\<close>

fun fetched_page :: "event \<Rightarrow> nat list" where
  "fetched_page (Fetch page url) = [page]"
| "fetched_page e = []"

definition pages_attempted :: "run \<Rightarrow> nat list" where
  "pages_attempted r = concat (map fetched_page (trace r))"

definition stopped_early :: "run \<Rightarrow> bool" where
  "stopped_early r = (Warning \<in> set (trace r))"

text \<open>The URL of a page, from the request alone.\<close>

definition page_url ::
  "world \<Rightarrow> string \<Rightarrow> string \<Rightarrow> pyval option \<Rightarrow> pyval option \<Rightarrow> nat \<Rightarrow> string" where
  "page_url w query sort_by min_price max_price page =
     base_url @ ''?'' @
       urlencode w (dict_set (search_params query sort_by min_price max_price) ''_pgn''
                      (PyInt (int page)))"

text \<open>
  The answer to the request of a page, and the products the page gives, from the request
  alone; and the two ways a request fails in \<open>_scrape_page\<close>: \<open>session.get\<close> raises, or
  \<open>raise_for_status\<close> does.
\<close>

definition page_answer ::
  "world \<Rightarrow> string \<Rightarrow> string \<Rightarrow> pyval option \<Rightarrow> pyval option \<Rightarrow> nat \<Rightarrow> get_result" where
  "page_answer w query sort_by min_price max_price page =
     session_get w page (page_url w query sort_by min_price max_price page)"

definition page_records ::
  "scraper \<Rightarrow> world \<Rightarrow> string \<Rightarrow> string \<Rightarrow> pyval option \<Rightarrow> pyval option \<Rightarrow> nat
     \<Rightarrow> product list" where
  "page_records self w query sort_by min_price max_price page =
     page_products self w page (page_url w query sort_by min_price max_price page)"

definition fetch_fails :: "get_result \<Rightarrow> bool" where
  "fetch_fails answer =
     (case answer of RequestException \<Rightarrow> True | Response r \<Rightarrow> raises_for_status r)"

section \<open>Example inputs\<close>

text \<open>
  A listing with a title (found by the second title selector) and a price, and nothing
  else; and the promotional banner that heads a result page, with the placeholder title
  and a price.
\<close>

definition laptop_item :: item where
  "laptop_item =
     \<lparr>find_elem = (\<lambda>tag a.
        if tag = ''div'' \<and> a = [(''class'', ''s-item__title'')]
          then Some \<lparr>get_text = ''Laptop'', attrs = []\<rparr>
        else if tag = ''span'' \<and> a = [(''class'', ''s-item__price'')]
          then Some \<lparr>get_text = ''$10.00'', attrs = []\<rparr>
        else None),
      find_span_string = None\<rparr>"

definition banner_item :: item where
  "banner_item =
     \<lparr>find_elem = (\<lambda>tag a.
        if tag = ''span'' \<and> a = [(''role'', ''heading'')]
          then Some \<lparr>get_text = ''Shop on eBay'', attrs = []\<rparr>
        else if tag = ''span'' \<and> a = [(''class'', ''s-item__price'')]
          then Some \<lparr>get_text = ''$20.00'', attrs = []\<rparr>
        else None),
      find_span_string = None\<rparr>"

text \<open>
  Answers to a request: a result page with the given listings, and the status 429 of a
  rate limit. A world that answers by the page number alone, and a scraper that selects
  the title and the price.
\<close>

definition listing_page :: "item list \<Rightarrow> get_result" where
  "listing_page items =
     Response \<lparr>status_code = 200,
               soup = \<lparr>find_all = (\<lambda>tag a.
                 if tag = ''li'' \<and> a = [(''class'', ''s-item'')] then items else [])\<rparr>\<rparr>"

definition rate_limited :: get_result where
  "rate_limited = Response \<lparr>status_code = 429, soup = \<lparr>find_all = (\<lambda>tag a. [])\<rparr>\<rparr>"

definition example_world :: "(nat \<Rightarrow> get_result) \<Rightarrow> world" where
  "example_world answers =
     \<lparr>urlencode = (\<lambda>params. concat (map (\<lambda>kv. fst kv @ ''&'') params)),
      session_get = (\<lambda>page url. answers page),
      timestamp = (\<lambda>page idx. ''2024-05-01 10:00:00'')\<rparr>"

definition example_scraper :: scraper where
  "example_scraper = \<lparr>selected_fields = [''title'', ''price''], debug_mode = False\<rparr>"

text \<open>
  Three worlds: the second page is rate limited; the second page has no listing; the first
  request raises. Every other page has the one listing.
\<close>

definition blocked_second_page :: world where
  "blocked_second_page =
     example_world (\<lambda>page. if page = 2 then rate_limited else listing_page [laptop_item])"

definition empty_second_page :: world where
  "empty_second_page =
     example_world (\<lambda>page. if page = 2 then listing_page [] else listing_page [laptop_item])"

definition failed_first_page :: world where
  "failed_first_page =
     example_world (\<lambda>page. if page = 1 then RequestException else listing_page [laptop_item])"

text \<open>
  For the examples on ASCII texts and on decimal numerals: the lower case of an ASCII
  text, the text without the blanks at its ends, the value of a text of the form
  \<open>digits\<close> or \<open>digits.digits\<close>, and exact sums and quotients. On such texts and on
  10, 20, 30 and 15, which are binary64 numbers, these are what \<open>str.lower\<close>,
  \<open>str.strip\<close>, \<open>float\<close>, \<open>sum\<close> and the division give; they stand for nothing else.
\<close>

definition ascii_lower :: "string \<Rightarrow> string" where
  "ascii_lower s =
     map (\<lambda>c. if 65 \<le> (of_char c :: nat) \<and> (of_char c :: nat) \<le> 90
               then char_of ((of_char c :: nat) + 32) else c) s"

definition trim_blanks :: "string \<Rightarrow> string" where
  "trim_blanks s =
     rev (dropWhile (\<lambda>c. c = CHR '' '') (rev (dropWhile (\<lambda>c. c = CHR '' '') s)))"

definition is_digit :: "char \<Rightarrow> bool" where
  "is_digit c = (48 \<le> (of_char c :: nat) \<and> (of_char c :: nat) \<le> 57)"

definition nat_of_digits :: "string \<Rightarrow> nat" where
  "nat_of_digits ds = foldl (\<lambda>a c. 10 * a + (of_char c - 48)) 0 ds"

definition decimal_value :: "string \<Rightarrow> pyfloat option" where
  "decimal_value s =
     (let ip = takeWhile is_digit s; r = dropWhile is_digit s
      in if ip = [] then None
         else if r = [] then Some (Fin (of_nat (nat_of_digits ip)))
         else if hd r = CHR ''.'' \<and> tl r \<noteq> [] \<and> list_all is_digit (tl r)
           then Some (Fin (of_nat (nat_of_digits ip)
                           + of_nat (nat_of_digits (tl r)) / 10 ^ length (tl r)))
           else None)"

fun exact_add :: "pyfloat \<Rightarrow> pyfloat \<Rightarrow> pyfloat" where
  "exact_add (Fin a) (Fin b) = Fin (a + b)"
| "exact_add x y = NaN"

fun exact_div :: "pyfloat \<Rightarrow> nat \<Rightarrow> pyfloat" where
  "exact_div (Fin a) n = Fin (a / of_nat n)"
| "exact_div x n = x"

definition example_python :: python where
  "example_python =
     \<lparr>str_strip = trim_blanks, float_of = decimal_value,
      sum_of = foldl exact_add (Fin 0), div_of = exact_div\<rparr>"

section \<open>Dictionaries\<close>

lemma keys_dict_set: "set (keys (dict_set d k v)) = insert k (set (keys d))"
  by (induction d k v rule: dict_set.induct) (auto simp: keys_def)

lemma distinct_dict_set: "distinct (keys d) \<Longrightarrow> distinct (keys (dict_set d k v))"
proof (induction d k v rule: dict_set.induct)
  case (1 k v)
  then show ?case by (simp add: keys_def)
next
  case (2 k' v' d k v)
  have "set (map fst (dict_set d k v)) = insert k (set (map fst d))"
    using keys_dict_set [of d k v] by (simp add: keys_def)
  with 2 show ?case by (auto simp: keys_def)
qed

lemma dict_get_dict_set:
  "dict_get (dict_set d k v) k' = (if k' = k then Some v else dict_get d k')"
  by (induction d k v rule: dict_set.induct) (auto simp: dict_get_def)

lemma length_distinct_keys:
  assumes "distinct (keys d)" and "a \<in> set (keys d)" and "b \<in> set (keys d)" and "a \<noteq> b"
  shows "1 < length d"
proof -
  have "card {a, b} \<le> card (set (keys d))"
    using assms by (intro card_mono) auto
  also have "card (set (keys d)) = length (keys d)"
    using assms(1) by (rule distinct_card)
  finally show ?thesis using assms(4) by (simp add: keys_def)
qed

lemma other_key_of_length:
  assumes "distinct (keys d)" and "1 < length d"
  shows "\<exists>k \<in> set (keys d). k \<noteq> a"
proof (rule ccontr)
  assume "\<not> (\<exists>k \<in> set (keys d). k \<noteq> a)"
  then have "set (keys d) \<subseteq> {a}" by auto
  then have "card (set (keys d)) \<le> card {a}" by (intro card_mono) auto
  moreover have "card (set (keys d)) = length (keys d)"
    using assms(1) by (rule distinct_card)
  ultimately show False using assms(2) by (simp add: keys_def)
qed

section \<open>The blocks of the extraction\<close>

lemma keys_extract_fields:
  "set (keys (extract_fields fs now it p)) =
     insert ''scraped_at'' (set (keys p) \<union>
       (set fs \<inter> set [''price'', ''condition'', ''shipping'', ''url'', ''location'',
                      ''image_url'', ''sold_count'']))"
  unfolding extract_fields_def extract_price_def extract_condition_def extract_shipping_def
    extract_url_def extract_location_def extract_image_url_def extract_sold_count_def
  by (auto simp: keys_dict_set)

lemma distinct_extract_fields:
  "distinct (keys p) \<Longrightarrow> distinct (keys (extract_fields fs now it p))"
  unfolding extract_fields_def extract_price_def extract_condition_def extract_shipping_def
    extract_url_def extract_location_def extract_image_url_def extract_sold_count_def
  by (simp add: distinct_dict_set)

lemma dict_get_extract_price:
  "dict_get (extract_price fs it p) k =
     (if k = ''price'' \<and> ''price'' \<in> set fs
      then Some (text_or (find_elem it ''span'' [(''class'', ''s-item__price'')]) ''N/A'')
      else dict_get p k)"
  by (simp add: extract_price_def dict_get_dict_set)

lemma dict_get_extract_condition:
  "dict_get (extract_condition fs it p) k =
     (if k = ''condition'' \<and> ''condition'' \<in> set fs
      then Some (text_or (condition_elem it) ''N/A'') else dict_get p k)"
  by (simp add: extract_condition_def dict_get_dict_set)

lemma dict_get_extract_shipping:
  "dict_get (extract_shipping fs it p) k =
     (if k = ''shipping'' \<and> ''shipping'' \<in> set fs
      then Some (text_or (shipping_elem it) ''N/A'') else dict_get p k)"
  by (simp add: extract_shipping_def dict_get_dict_set)

lemma dict_get_extract_url:
  "dict_get (extract_url fs it p) k =
     (if k = ''url'' \<and> ''url'' \<in> set fs then Some (url_value it) else dict_get p k)"
  by (simp add: extract_url_def dict_get_dict_set)

lemma dict_get_extract_location:
  "dict_get (extract_location fs it p) k =
     (if k = ''location'' \<and> ''location'' \<in> set fs
      then Some (text_or (location_elem it) ''N/A'') else dict_get p k)"
  by (simp add: extract_location_def dict_get_dict_set)

lemma dict_get_extract_image_url:
  "dict_get (extract_image_url fs it p) k =
     (if k = ''image_url'' \<and> ''image_url'' \<in> set fs
      then Some (image_url_value it) else dict_get p k)"
  by (simp add: extract_image_url_def dict_get_dict_set)

lemma dict_get_extract_sold_count:
  "dict_get (extract_sold_count fs it p) k =
     (if k = ''sold_count'' \<and> ''sold_count'' \<in> set fs
      then Some (text_or (find_elem it ''span'' [(''class'', ''s-item__quantitySold'')]) ''0'')
      else dict_get p k)"
  by (simp add: extract_sold_count_def dict_get_dict_set)

lemmas dict_get_blocks =
  dict_get_extract_price dict_get_extract_condition dict_get_extract_shipping
  dict_get_extract_url dict_get_extract_location dict_get_extract_image_url
  dict_get_extract_sold_count

lemma extract_fields_title:
  "dict_get (extract_fields fs now it p) ''title'' = dict_get p ''title''"
  by (simp add: extract_fields_def dict_get_dict_set dict_get_blocks)

lemma extract_fields_scraped_at:
  "dict_get (extract_fields fs now it p) ''scraped_at'' = Some now"
  by (simp add: extract_fields_def dict_get_dict_set)

lemma extract_fields_price:
  "''price'' \<in> set fs \<Longrightarrow> dict_get (extract_fields fs now it p) ''price'' =
     Some (text_or (find_elem it ''span'' [(''class'', ''s-item__price'')]) ''N/A'')"
  by (simp add: extract_fields_def dict_get_dict_set dict_get_blocks)

lemma extract_fields_condition:
  "''condition'' \<in> set fs \<Longrightarrow> dict_get (extract_fields fs now it p) ''condition'' =
     Some (text_or (condition_elem it) ''N/A'')"
  by (simp add: extract_fields_def dict_get_dict_set dict_get_blocks)

lemma extract_fields_shipping:
  "''shipping'' \<in> set fs \<Longrightarrow> dict_get (extract_fields fs now it p) ''shipping'' =
     Some (text_or (shipping_elem it) ''N/A'')"
  by (simp add: extract_fields_def dict_get_dict_set dict_get_blocks)

lemma extract_fields_url:
  "''url'' \<in> set fs \<Longrightarrow> dict_get (extract_fields fs now it p) ''url'' = Some (url_value it)"
  by (simp add: extract_fields_def dict_get_dict_set dict_get_blocks)

lemma extract_fields_location:
  "''location'' \<in> set fs \<Longrightarrow> dict_get (extract_fields fs now it p) ''location'' =
     Some (text_or (location_elem it) ''N/A'')"
  by (simp add: extract_fields_def dict_get_dict_set dict_get_blocks)

lemma extract_fields_image_url:
  "''image_url'' \<in> set fs \<Longrightarrow> dict_get (extract_fields fs now it p) ''image_url'' =
     Some (image_url_value it)"
  by (simp add: extract_fields_def dict_get_dict_set dict_get_blocks)

lemma extract_fields_sold_count:
  "''sold_count'' \<in> set fs \<Longrightarrow> dict_get (extract_fields fs now it p) ''sold_count'' =
     Some (text_or (find_elem it ''span'' [(''class'', ''s-item__quantitySold'')]) ''0'')"
  by (simp add: extract_fields_def dict_get_dict_set dict_get_blocks)

section \<open>Results of \<open>_extract_product_data\<close>\<close>

lemma extract_title_Some:
  "extract_title fs it [] = Some p0 \<longleftrightarrow>
     (if ''title'' \<in> set fs
      then \<exists>e. title_elem it = Some e \<and> get_text e \<notin> set rejected_titles \<and>
             p0 = [(''title'', get_text e)]
      else p0 = [])"
  by (auto simp: extract_title_def Let_def split: option.splits)

lemma extract_product_data_Some:
  "extract_product_data fs now it = Some p \<longleftrightarrow>
     (\<exists>p0. extract_title fs it [] = Some p0 \<and> p = extract_fields fs now it p0 \<and> 1 < length p)"
  by (auto simp: extract_product_data_def Let_def split: option.splits)

lemma distinct_extract_title:
  "extract_title fs it [] = Some p0 \<Longrightarrow> distinct (keys p0)"
  by (auto simp: extract_title_Some keys_def split: if_splits)

lemma extract_not_rejected:
  assumes "extract_title fs it [] = Some p0" and "f \<in> set fs"
    and "f \<in> set [''price'', ''condition'', ''shipping'', ''url'', ''location'',
                   ''image_url'', ''sold_count'']"
  shows "extract_product_data fs now it = Some (extract_fields fs now it p0)"
proof -
  let ?p = "extract_fields fs now it p0"
  have d: "distinct (keys ?p)"
    using assms(1) by (intro distinct_extract_fields distinct_extract_title)
  have "f \<in> set (keys ?p)" and "''scraped_at'' \<in> set (keys ?p)"
    using assms(2,3) by (auto simp: keys_extract_fields)
  moreover have "f \<noteq> ''scraped_at''"
    using assms(3) by auto
  ultimately have "1 < length ?p"
    using d by (intro length_distinct_keys [of ?p f "''scraped_at''"])
  with assms(1) show ?thesis
    by (simp add: extract_product_data_Some)
qed

text \<open>
  C4, as the code has it. The extraction returns nothing or a product: a dictionary of
  distinct keys with more than one entry, so with a field besides the time stamp. The
  product has a title exactly when the title is among the selected fields, and then it is
  the located title text, which is none of the rejected ones.
\<close>

theorem extract_product_data_record:
  "extract_product_data fs now it = None \<or>
   (\<exists>p. extract_product_data fs now it = Some p \<and> 1 < length p \<and> distinct (keys p) \<and>
        (\<exists>k. k \<in> set (keys p) \<and> k \<noteq> ''scraped_at'') \<and>
        dict_get p ''scraped_at'' = Some now \<and>
        (if ''title'' \<in> set fs
         then \<exists>e. title_elem it = Some e \<and> dict_get p ''title'' = Some (get_text e) \<and>
                get_text e \<notin> set rejected_titles
         else dict_get p ''title'' = None))"
proof (cases "extract_product_data fs now it")
  case None
  then show ?thesis by simp
next
  case (Some p)
  then obtain p0 where t: "extract_title fs it [] = Some p0"
    and p: "p = extract_fields fs now it p0" and len: "1 < length p"
    by (auto simp: extract_product_data_Some)
  have d: "distinct (keys p)"
    using t p by (simp add: distinct_extract_fields distinct_extract_title)
  have other: "\<exists>k. k \<in> set (keys p) \<and> k \<noteq> ''scraped_at''"
    using other_key_of_length [OF d len] by blast
  have stamp: "dict_get p ''scraped_at'' = Some now"
    using p by (simp add: extract_fields_scraped_at)
  have "dict_get p ''title'' = dict_get p0 ''title''"
    using p by (simp add: extract_fields_title)
  then have title: "if ''title'' \<in> set fs
         then \<exists>e. title_elem it = Some e \<and> dict_get p ''title'' = Some (get_text e) \<and>
                get_text e \<notin> set rejected_titles
         else dict_get p ''title'' = None"
    using t by (auto simp: extract_title_Some dict_get_def split: if_splits)
  show ?thesis
    using Some len d other stamp title by simp
qed

theorem extract_product_data_record_witness:
  "extract_product_data [''title'', ''price''] ''2024-05-01 10:00:00'' laptop_item =
     Some [(''title'', ''Laptop''), (''price'', ''$10.00''),
           (''scraped_at'', ''2024-05-01 10:00:00'')]
   \<and> title_elem laptop_item = Some \<lparr>get_text = ''Laptop'', attrs = []\<rparr>
   \<and> ''Laptop'' \<notin> set rejected_titles"
  using extract_product_data_record [of "[''title'', ''price'']" "''2024-05-01 10:00:00''" laptop_item]
  by (simp add: extract_product_data_def extract_title_def extract_fields_def
      extract_price_def extract_condition_def extract_shipping_def extract_url_def
      extract_location_def extract_image_url_def extract_sold_count_def title_elem_def
      or_else_def text_or_def rejected_titles_def laptop_item_def)

text \<open>
  C4 as stated fails where the title is not among the selected fields: the listing with a
  title and a price, extracted for the price alone, gives a product without a title.
\<close>

theorem extract_product_data_no_title_counterexample:
  "extract_product_data [''price''] ''2024-05-01 10:00:00'' laptop_item =
     Some [(''price'', ''$10.00''), (''scraped_at'', ''2024-05-01 10:00:00'')]
   \<and> dict_get [(''price'', ''$10.00''), (''scraped_at'', ''2024-05-01 10:00:00'')] ''title''
       = None"
  by (simp add: extract_product_data_def extract_title_def extract_fields_def
      extract_price_def extract_condition_def extract_shipping_def extract_url_def
      extract_location_def extract_image_url_def extract_sold_count_def
      text_or_def dict_get_def laptop_item_def)

text \<open>
  C5, as the code has it. With the title among the selected fields, a node on which no
  title selector matches, or whose located title text is \<open>Shop on eBay\<close>, \<open>New Listing\<close>
  or empty, gives nothing, whatever the other fields are.
\<close>

theorem rejected_title_gives_nothing:
  assumes "''title'' \<in> set fs"
    and "title_elem it = None \<or>
         (\<exists>e. title_elem it = Some e \<and> get_text e \<in> {''Shop on eBay'', ''New Listing'', ''''})"
  shows "extract_product_data fs now it = None"
  using assms
  by (auto simp: extract_product_data_def extract_title_def rejected_titles_def)

theorem rejected_title_gives_nothing_witness:
  "''title'' \<in> set [''title'', ''price'']
   \<and> title_elem banner_item = Some \<lparr>get_text = ''Shop on eBay'', attrs = []\<rparr>
   \<and> extract_product_data [''title'', ''price''] ''2024-05-01 10:00:00'' banner_item = None"
proof -
  have t: "title_elem banner_item = Some \<lparr>get_text = ''Shop on eBay'', attrs = []\<rparr>"
    by (simp add: title_elem_def or_else_def banner_item_def)
  have "extract_product_data [''title'', ''price''] ''2024-05-01 10:00:00'' banner_item = None"
    by (rule rejected_title_gives_nothing) (simp_all add: t)
  with t show ?thesis by simp
qed

text \<open>
  C5 as stated fails where the title is not among the selected fields: the banner, whose
  title text is the rejected \<open>Shop on eBay\<close>, extracted for the price alone, gives a product.
\<close>

theorem rejected_title_kept_counterexample:
  "title_elem banner_item = Some \<lparr>get_text = ''Shop on eBay'', attrs = []\<rparr>
   \<and> extract_product_data [''price''] ''2024-05-01 10:00:00'' banner_item =
       Some [(''price'', ''$20.00''), (''scraped_at'', ''2024-05-01 10:00:00'')]"
  by (simp add: extract_product_data_def extract_title_def extract_fields_def
      extract_price_def extract_condition_def extract_shipping_def extract_url_def
      extract_location_def extract_image_url_def extract_sold_count_def title_elem_def
      or_else_def text_or_def banner_item_def)

text \<open>
  C8, as the code has it. When the title block does not reject the node (the title is not
  selected, or a title is located and is none of the rejected texts), a selected field
  whose selectors find nothing on the node does not reject the node either: the product
  is returned and holds \<open>N/A\<close> for the price, the condition, the shipping, the URL (also
  when the link has no \<open>href\<close>), the location and the image URL (also when the image has
  neither \<open>src\<close> nor \<open>data-src\<close>), and \<open>0\<close> for the sold count.
\<close>

theorem missing_field_default:
  assumes "''title'' \<in> set fs \<longrightarrow>
             (\<exists>e. title_elem it = Some e \<and> get_text e \<notin> set rejected_titles)"
  shows
    "(''price'' \<in> set fs \<and> find_elem it ''span'' [(''class'', ''s-item__price'')] = None \<longrightarrow>
        (\<exists>p. extract_product_data fs now it = Some p \<and> dict_get p ''price'' = Some ''N/A''))
     \<and> (''condition'' \<in> set fs \<and> condition_elem it = None \<longrightarrow>
        (\<exists>p. extract_product_data fs now it = Some p \<and> dict_get p ''condition'' = Some ''N/A''))
     \<and> (''shipping'' \<in> set fs \<and> shipping_elem it = None \<longrightarrow>
        (\<exists>p. extract_product_data fs now it = Some p \<and> dict_get p ''shipping'' = Some ''N/A''))
     \<and> (''url'' \<in> set fs \<and>
          (case find_elem it ''a'' [(''class'', ''s-item__link'')] of
             None \<Rightarrow> True
           | Some a_tag \<Rightarrow> dict_get (attrs a_tag) ''href'' = None) \<longrightarrow>
        (\<exists>p. extract_product_data fs now it = Some p \<and> dict_get p ''url'' = Some ''N/A''))
     \<and> (''location'' \<in> set fs \<and> location_elem it = None \<longrightarrow>
        (\<exists>p. extract_product_data fs now it = Some p \<and> dict_get p ''location'' = Some ''N/A''))
     \<and> (''image_url'' \<in> set fs \<and>
          (case find_elem it ''img'' [] of
             None \<Rightarrow> True
           | Some img_tag \<Rightarrow> dict_get (attrs img_tag) ''src'' = None \<and>
                             dict_get (attrs img_tag) ''data-src'' = None) \<longrightarrow>
        (\<exists>p. extract_product_data fs now it = Some p \<and> dict_get p ''image_url'' = Some ''N/A''))
     \<and> (''sold_count'' \<in> set fs \<and>
          find_elem it ''span'' [(''class'', ''s-item__quantitySold'')] = None \<longrightarrow>
        (\<exists>p. extract_product_data fs now it = Some p \<and> dict_get p ''sold_count'' = Some ''0''))"
proof -
  obtain p0 where t: "extract_title fs it [] = Some p0"
    using assms by (cases "''title'' \<in> set fs") (auto simp: extract_title_Some)
  let ?p = "extract_fields fs now it p0"
  have kept: "extract_product_data fs now it = Some ?p"
    if "f \<in> set fs"
      and "f \<in> set [''price'', ''condition'', ''shipping'', ''url'', ''location'',
                     ''image_url'', ''sold_count'']" for f
    using t that by (rule extract_not_rejected)
  have price: "dict_get ?p ''price'' = Some ''N/A''"
    if "''price'' \<in> set fs" "find_elem it ''span'' [(''class'', ''s-item__price'')] = None"
    using that by (simp add: extract_fields_price text_or_def)
  have condition: "dict_get ?p ''condition'' = Some ''N/A''"
    if "''condition'' \<in> set fs" "condition_elem it = None"
    using that by (simp add: extract_fields_condition text_or_def)
  have shipping: "dict_get ?p ''shipping'' = Some ''N/A''"
    if "''shipping'' \<in> set fs" "shipping_elem it = None"
    using that by (simp add: extract_fields_shipping text_or_def)
  have url: "dict_get ?p ''url'' = Some ''N/A''"
    if "''url'' \<in> set fs"
      "case find_elem it ''a'' [(''class'', ''s-item__link'')] of
         None \<Rightarrow> True
       | Some a_tag \<Rightarrow> dict_get (attrs a_tag) ''href'' = None"
    using that by (simp add: extract_fields_url url_value_def split: option.splits)
  have location: "dict_get ?p ''location'' = Some ''N/A''"
    if "''location'' \<in> set fs" "location_elem it = None"
    using that by (simp add: extract_fields_location text_or_def)
  have image: "dict_get ?p ''image_url'' = Some ''N/A''"
    if "''image_url'' \<in> set fs"
      "case find_elem it ''img'' [] of
         None \<Rightarrow> True
       | Some img_tag \<Rightarrow> dict_get (attrs img_tag) ''src'' = None \<and>
                         dict_get (attrs img_tag) ''data-src'' = None"
    using that by (auto simp: extract_fields_image_url image_url_value_def split: option.splits)
  have sold: "dict_get ?p ''sold_count'' = Some ''0''"
    if "''sold_count'' \<in> set fs"
      "find_elem it ''span'' [(''class'', ''s-item__quantitySold'')] = None"
    using that by (simp add: extract_fields_sold_count text_or_def)
  have c1: "''price'' \<in> set fs \<and> find_elem it ''span'' [(''class'', ''s-item__price'')] = None \<longrightarrow>
        (\<exists>p. extract_product_data fs now it = Some p \<and> dict_get p ''price'' = Some ''N/A'')"
    using kept [of "''price''"] price by simp
  have c2: "''condition'' \<in> set fs \<and> condition_elem it = None \<longrightarrow>
        (\<exists>p. extract_product_data fs now it = Some p \<and> dict_get p ''condition'' = Some ''N/A'')"
    using kept [of "''condition''"] condition by simp
  have c3: "''shipping'' \<in> set fs \<and> shipping_elem it = None \<longrightarrow>
        (\<exists>p. extract_product_data fs now it = Some p \<and> dict_get p ''shipping'' = Some ''N/A'')"
    using kept [of "''shipping''"] shipping by simp
  have c4: "''url'' \<in> set fs \<and>
          (case find_elem it ''a'' [(''class'', ''s-item__link'')] of
             None \<Rightarrow> True
           | Some a_tag \<Rightarrow> dict_get (attrs a_tag) ''href'' = None) \<longrightarrow>
        (\<exists>p. extract_product_data fs now it = Some p \<and> dict_get p ''url'' = Some ''N/A'')"
    using kept [of "''url''"] url by simp
  have c5: "''location'' \<in> set fs \<and> location_elem it = None \<longrightarrow>
        (\<exists>p. extract_product_data fs now it = Some p \<and> dict_get p ''location'' = Some ''N/A'')"
    using kept [of "''location''"] location by simp
  have c6: "''image_url'' \<in> set fs \<and>
          (case find_elem it ''img'' [] of
             None \<Rightarrow> True
           | Some img_tag \<Rightarrow> dict_get (attrs img_tag) ''src'' = None \<and>
                             dict_get (attrs img_tag) ''data-src'' = None) \<longrightarrow>
        (\<exists>p. extract_product_data fs now it = Some p \<and> dict_get p ''image_url'' = Some ''N/A'')"
    using kept [of "''image_url''"] image by simp
  have c7: "''sold_count'' \<in> set fs \<and>
          find_elem it ''span'' [(''class'', ''s-item__quantitySold'')] = None \<longrightarrow>
        (\<exists>p. extract_product_data fs now it = Some p \<and> dict_get p ''sold_count'' = Some ''0'')"
    using kept [of "''sold_count''"] sold by simp
  from c1 c2 c3 c4 c5 c6 c7 show ?thesis by blast
qed

theorem missing_field_default_witness:
  "''condition'' \<in> set [''title'', ''price'', ''condition'']
   \<and> condition_elem laptop_item = None
   \<and> title_elem laptop_item = Some \<lparr>get_text = ''Laptop'', attrs = []\<rparr>
   \<and> ''Laptop'' \<notin> set rejected_titles
   \<and> (\<exists>p. extract_product_data [''title'', ''price'', ''condition''] ''2024-05-01 10:00:00''
             laptop_item = Some p
          \<and> dict_get p ''condition'' = Some ''N/A'')"
proof -
  have t: "title_elem laptop_item = Some \<lparr>get_text = ''Laptop'', attrs = []\<rparr>"
    by (simp add: title_elem_def or_else_def laptop_item_def)
  have r: "''Laptop'' \<notin> set rejected_titles"
    by (simp add: rejected_titles_def)
  have c: "condition_elem laptop_item = None"
    by (simp add: condition_elem_def or_else_def laptop_item_def)
  have "''title'' \<in> set [''title'', ''price'', ''condition''] \<longrightarrow>
          (\<exists>e. title_elem laptop_item = Some e \<and> get_text e \<notin> set rejected_titles)"
    using t r by simp
  from missing_field_default [OF this, of "''2024-05-01 10:00:00''"] c
  have "\<exists>p. extract_product_data [''title'', ''price'', ''condition''] ''2024-05-01 10:00:00''
             laptop_item = Some p
          \<and> dict_get p ''condition'' = Some ''N/A''"
    by simp
  with t r c show ?thesis by simp
qed

text \<open>
  C8 as stated fails for the sold count: on the listing without a sold-count element the
  product holds \<open>0\<close> for it, not the \<open>N/A\<close> stored for every other missing field.
\<close>

theorem sold_count_default_counterexample:
  "find_elem laptop_item ''span'' [(''class'', ''s-item__quantitySold'')] = None
   \<and> extract_product_data [''title'', ''sold_count''] ''2024-05-01 10:00:00'' laptop_item =
       Some [(''title'', ''Laptop''), (''sold_count'', ''0''),
             (''scraped_at'', ''2024-05-01 10:00:00'')]
   \<and> dict_get [(''title'', ''Laptop''), (''sold_count'', ''0''),
               (''scraped_at'', ''2024-05-01 10:00:00'')] ''sold_count'' \<noteq> Some ''N/A''"
  by (simp add: extract_product_data_def extract_title_def extract_fields_def
      extract_price_def extract_condition_def extract_shipping_def extract_url_def
      extract_location_def extract_image_url_def extract_sold_count_def title_elem_def
      or_else_def text_or_def rejected_titles_def dict_get_def laptop_item_def)

section \<open>Results of \<open>filter_by_condition\<close>\<close>

lemma filter_loop_filter:
  "filter_loop lower c ps =
     filter (\<lambda>p. py_in (lower c) (lower (dict_get_default p ''condition'' []))) ps"
  by (induction ps) (simp_all add: Let_def)

lemma condition_match_iff:
  "py_in (lower c) (lower (dict_get_default p ''condition'' [])) \<longleftrightarrow>
     (\<exists>pre suf. lower (case dict_get p ''condition'' of Some v \<Rightarrow> v | None \<Rightarrow> [])
                  = pre @ lower c @ suf)"
  by (simp add: dict_get_default_def py_in_def sublist_def)

text \<open>
  C9. Without a condition, or with the empty one, the products come back as they are.
\<close>

theorem filter_by_condition_identity:
  "filter_by_condition lower products None = products \<and>
   filter_by_condition lower products (Some []) = products"
  by (simp add: filter_by_condition_def)

text \<open>
  C6, as the code has it. With a condition that is not empty, the products kept are those
  whose condition text, put in lower case by \<open>str.lower\<close>, contains the condition put in
  lower case; the condition text of a product without a condition is the empty text; the
  order is kept. So a product without a condition is dropped, \<open>str.lower\<close> giving the
  empty text for the empty text and a text that is not empty for the condition.
\<close>

theorem filter_by_condition_match:
  assumes "c \<noteq> []"
  shows "filter_by_condition lower ps (Some c) =
           filter (\<lambda>p. \<exists>pre suf.
                     lower (case dict_get p ''condition'' of Some v \<Rightarrow> v | None \<Rightarrow> [])
                       = pre @ lower c @ suf) ps
         \<and> (lower [] = [] \<and> lower c \<noteq> [] \<longrightarrow>
              (\<forall>p. dict_get p ''condition'' = None \<longrightarrow>
                   p \<notin> set (filter_by_condition lower ps (Some c))))"
proof -
  have eq: "filter_by_condition lower ps (Some c) =
           filter (\<lambda>p. \<exists>pre suf.
                     lower (case dict_get p ''condition'' of Some v \<Rightarrow> v | None \<Rightarrow> [])
                       = pre @ lower c @ suf) ps"
    using assms
    by (simp add: filter_by_condition_def filter_loop_filter condition_match_iff)
  show ?thesis
    unfolding eq by auto
qed

theorem filter_by_condition_match_witness:
  "''NEW'' \<noteq> []
   \<and> ascii_lower [] = [] \<and> ascii_lower ''NEW'' \<noteq> []
   \<and> filter_by_condition ascii_lower
       [[(''title'', ''Laptop''), (''condition'', ''Brand New'')],
        [(''title'', ''Phone''), (''condition'', ''Pre-Owned'')],
        [(''title'', ''Tablet'')]] (Some ''NEW'')
     = [[(''title'', ''Laptop''), (''condition'', ''Brand New'')]]
   \<and> filter (\<lambda>p. \<exists>pre suf.
               ascii_lower (case dict_get p ''condition'' of Some v \<Rightarrow> v | None \<Rightarrow> [])
                 = pre @ ascii_lower ''NEW'' @ suf)
       [[(''title'', ''Laptop''), (''condition'', ''Brand New'')],
        [(''title'', ''Phone''), (''condition'', ''Pre-Owned'')],
        [(''title'', ''Tablet'')]]
     = [[(''title'', ''Laptop''), (''condition'', ''Brand New'')]]
   \<and> [(''title'', ''Tablet'')] \<notin> set (filter_by_condition ascii_lower
       [[(''title'', ''Laptop''), (''condition'', ''Brand New'')],
        [(''title'', ''Phone''), (''condition'', ''Pre-Owned'')],
        [(''title'', ''Tablet'')]] (Some ''NEW''))"
proof -
  let ?ps = "[[(''title'', ''Laptop''), (''condition'', ''Brand New'')],
              [(''title'', ''Phone''), (''condition'', ''Pre-Owned'')],
              [(''title'', ''Tablet'')]]"
  have n: "''NEW'' \<noteq> []" by simp
  have l: "ascii_lower [] = []" "ascii_lower ''NEW'' \<noteq> []"
    by (simp_all add: ascii_lower_def)
  have absent: "dict_get [(''title'', ''Tablet'')] ''condition'' = None"
    by (simp add: dict_get_def)
  have direct: "filter_by_condition ascii_lower ?ps (Some ''NEW'') =
                  [[(''title'', ''Laptop''), (''condition'', ''Brand New'')]]"
    by (simp add: filter_by_condition_def dict_get_default_def dict_get_def py_in_def
        sublist_code ascii_lower_def char_of_def bit_iff_odd)
  note t = filter_by_condition_match [OF n, of ascii_lower ?ps]
  from t have "filter_by_condition ascii_lower ?ps (Some ''NEW'') =
          filter (\<lambda>p. \<exists>pre suf.
               ascii_lower (case dict_get p ''condition'' of Some v \<Rightarrow> v | None \<Rightarrow> [])
                 = pre @ ascii_lower ''NEW'' @ suf) ?ps"
    by (rule conjunct1)
  with direct have by_rule: "filter (\<lambda>p. \<exists>pre suf.
               ascii_lower (case dict_get p ''condition'' of Some v \<Rightarrow> v | None \<Rightarrow> [])
                 = pre @ ascii_lower ''NEW'' @ suf) ?ps
                    = [[(''title'', ''Laptop''), (''condition'', ''Brand New'')]]"
    by (simp only:)
  from t l absent
  have dropped: "[(''title'', ''Tablet'')] \<notin> set (filter_by_condition ascii_lower ?ps (Some ''NEW''))"
    by blast
  from n l direct by_rule dropped show ?thesis by (simp only: simp_thms)
qed

text \<open>
  C6 as stated fails on a product without a condition: filtered for \<open>new\<close>, it does not
  pass through, it is dropped.
\<close>

theorem filter_by_condition_absent_counterexample:
  "dict_get [(''title'', ''Laptop''), (''price'', ''$10.00'')] ''condition'' = None
   \<and> filter_by_condition ascii_lower [[(''title'', ''Laptop''), (''price'', ''$10.00'')]]
        (Some ''new'') = []"
  by (simp add: dict_get_def filter_by_condition_def dict_get_default_def py_in_def
      ascii_lower_def char_of_def bit_iff_odd)

section \<open>Results of the price statistic\<close>

lemma split_first_to:
  "\<not> sublist ''to'' x \<Longrightarrow> split_first ''to'' (x @ ''to'' @ y) = x"
proof (induction x)
  case Nil
  then show ?case by simp
next
  case (Cons a x)
  have rest: "\<not> sublist ''to'' x"
    using Cons.prems by (auto simp: sublist_Cons_right)
  have "\<not> prefix ''to'' (a # x @ ''to'' @ y)"
  proof
    assume p: "prefix ''to'' (a # x @ ''to'' @ y)"
    show False
    proof (cases x)
      case Nil
      with p show False by simp
    next
      case (Cons b x')
      with p have "a = CHR ''t''" and "b = CHR ''o''" by simp_all
      with Cons have "prefix ''to'' (a # x)" by simp
      then have "sublist ''to'' (a # x)" by (simp add: sublist_Cons_right)
      with Cons.prems show False by simp
    qed
  qed
  with Cons.IH [OF rest] show ?case by simp
qed

lemma number_text_range:
  assumes "\<not> py_in ''to'' x" and "clean_price price = x @ ''to'' @ y"
  shows "number_text py price = str_strip py x"
proof -
  have "py_in ''to'' (x @ ''to'' @ y)"
    unfolding py_in_def by (rule sublist_appendI)
  moreover have "split_first ''to'' (x @ ''to'' @ y) = x"
    using assms(1) unfolding py_in_def by (rule split_first_to)
  ultimately show ?thesis
    by (simp add: number_text_def assms(2))
qed

lemma collect_prices_append:
  "collect_prices py (ps @ qs) = collect_prices py ps @ collect_prices py qs"
  by (induction ps) (simp_all split: option.splits)

lemma collect_prices_concat:
  "collect_prices py ps =
     concat (map (\<lambda>p. case float_of py (number_text py (dict_get_default p ''price'' [])) of
                        Some v \<Rightarrow> [v] | None \<Rightarrow> []) ps)"
  by (induction ps) (simp_all add: parse_price_def split: option.splits)

lemma price_statistics_prices:
  "price_statistics py fs ps =
     (if ''price'' \<in> set fs \<and> collect_prices py ps \<noteq> [] then
        Some (div_of py (sum_of py (collect_prices py ps)) (length (collect_prices py ps)),
              py_min (collect_prices py ps), py_max (collect_prices py ps))
      else None)"
  by (cases ps) (simp_all add: price_statistics_def Let_def)

lemma three_prices_clean:
  "number_text py ''$10.00'' = ''10.00''"
  "number_text py ''$20.00'' = ''20.00''"
  "number_text py ''not available'' = ''not available''"
  by (simp_all add: number_text_def clean_price_def pound_def euro_def py_in_def sublist_code)

text \<open>
  C7, as the code has it. The statistic is printed only when the price is among the
  selected fields. It is then computed from the list of the floats read from the price
  texts, in the order of the products, where a text that \<open>float\<close> rejects adds nothing
  (it is left out, not counted as zero): the average is the sum of the list divided by its
  length, with the minimum and the maximum of the list, and nothing is printed when the
  list is empty. So a product with such a text can be taken out without changing the
  statistic. The text read is the price text cleaned of currency signs and commas; when
  that reads \<open>X to Y\<close>, with no \<open>to\<close> inside \<open>X\<close>, it is \<open>X\<close> stripped. On the prices
  \<open>$10.00\<close>, \<open>$20.00\<close> and \<open>not available\<close>, with \<open>float\<close> reading \<open>10.00\<close> as 10 and
  \<open>20.00\<close> as 20 and rejecting \<open>not available\<close>, and the sum of 10 and 20 divided by 2
  being 15, the statistic is the average 15, the minimum 10 and the maximum 20.
\<close>

theorem price_statistics_rules:
  "(''price'' \<in> set fs \<and> float_of py ''10.00'' = Some (Fin 10) \<and>
    float_of py ''20.00'' = Some (Fin 20) \<and> float_of py ''not available'' = None \<and>
    div_of py (sum_of py [Fin 10, Fin 20]) 2 = Fin 15 \<longrightarrow>
      price_statistics py fs
        [[(''price'', ''$10.00'')], [(''price'', ''$20.00'')], [(''price'', ''not available'')]]
      = Some (Fin 15, Fin 10, Fin 20))
   \<and> price_statistics py fs products =
       (let prices =
          concat (map (\<lambda>p. case float_of py (number_text py (dict_get_default p ''price'' []))
                             of Some v \<Rightarrow> [v] | None \<Rightarrow> []) products)
        in if ''price'' \<in> set fs \<and> prices \<noteq> [] then
             Some (div_of py (sum_of py prices) (length prices), py_min prices, py_max prices)
           else None)
   \<and> (float_of py (number_text py (dict_get_default p ''price'' [])) = None \<longrightarrow>
        price_statistics py fs (ps @ p # qs) = price_statistics py fs (ps @ qs))
   \<and> (\<not> py_in ''to'' x \<and> clean_price price = x @ ''to'' @ y \<longrightarrow>
        number_text py price = str_strip py x)
   \<and> (\<not> py_in ''to'' (clean_price price) \<longrightarrow> number_text py price = clean_price price)"
proof -
  have a: "''price'' \<in> set fs \<and> float_of py ''10.00'' = Some (Fin 10) \<and>
    float_of py ''20.00'' = Some (Fin 20) \<and> float_of py ''not available'' = None \<and>
    div_of py (sum_of py [Fin 10, Fin 20]) 2 = Fin 15 \<longrightarrow>
      price_statistics py fs
        [[(''price'', ''$10.00'')], [(''price'', ''$20.00'')], [(''price'', ''not available'')]]
      = Some (Fin 15, Fin 10, Fin 20)"
    by (simp add: price_statistics_def parse_price_def dict_get_default_def dict_get_def
        three_prices_clean py_min_def py_max_def numeral_2_eq_2)
  have b: "price_statistics py fs products =
       (let prices =
          concat (map (\<lambda>p. case float_of py (number_text py (dict_get_default p ''price'' []))
                             of Some v \<Rightarrow> [v] | None \<Rightarrow> []) products)
        in if ''price'' \<in> set fs \<and> prices \<noteq> [] then
             Some (div_of py (sum_of py prices) (length prices), py_min prices, py_max prices)
           else None)"
    unfolding price_statistics_prices collect_prices_concat Let_def by (rule refl)
  have c: "float_of py (number_text py (dict_get_default p ''price'' [])) = None \<longrightarrow>
        price_statistics py fs (ps @ p # qs) = price_statistics py fs (ps @ qs)"
  proof
    assume "float_of py (number_text py (dict_get_default p ''price'' [])) = None"
    then have "collect_prices py (ps @ p # qs) = collect_prices py (ps @ qs)"
      by (simp add: collect_prices_append parse_price_def)
    then show "price_statistics py fs (ps @ p # qs) = price_statistics py fs (ps @ qs)"
      by (simp only: price_statistics_prices)
  qed
  have d: "\<not> py_in ''to'' x \<and> clean_price price = x @ ''to'' @ y \<longrightarrow>
        number_text py price = str_strip py x"
    using number_text_range by blast
  have e: "\<not> py_in ''to'' (clean_price price) \<longrightarrow> number_text py price = clean_price price"
    by (simp add: number_text_def)
  from a b c d e show ?thesis by (intro conjI)
qed

theorem price_statistics_rules_witness:
  "''price'' \<in> set [''price'']
   \<and> float_of example_python ''10.00'' = Some (Fin 10)
   \<and> float_of example_python ''20.00'' = Some (Fin 20)
   \<and> float_of example_python ''not available'' = None
   \<and> div_of example_python (sum_of example_python [Fin 10, Fin 20]) 2 = Fin 15
   \<and> price_statistics example_python [''price'']
        [[(''price'', ''$10.00'')], [(''price'', ''$20.00'')], [(''price'', ''not available'')]]
      = Some (Fin 15, Fin 10, Fin 20)
   \<and> price_statistics example_python [''price'']
        ([[(''price'', ''$10.00'')]] @ [(''price'', ''not available'')] # [[(''price'', ''$20.00'')]])
      = price_statistics example_python [''price'']
          ([[(''price'', ''$10.00'')]] @ [[(''price'', ''$20.00'')]])
   \<and> \<not> py_in ''to'' ''10.00 ''
   \<and> clean_price ''$10.00 to $20.00'' = ''10.00 '' @ ''to'' @ '' 20.00''
   \<and> number_text example_python ''$10.00 to $20.00'' = str_strip example_python ''10.00 ''
   \<and> float_of example_python (str_strip example_python ''10.00 '') = Some (Fin 10)"
proof -
  note r = price_statistics_rules [where py = example_python and fs = "[''price'']"
      and p = "[(''price'', ''not available'')]" and ps = "[[(''price'', ''$10.00'')]]"
      and qs = "[[(''price'', ''$20.00'')]]" and x = "''10.00 ''"
      and price = "''$10.00 to $20.00''" and y = "'' 20.00''"]
  have sel: "''price'' \<in> set [''price'']" by simp
  have f1: "float_of example_python ''10.00'' = Some (Fin 10)" by code_simp
  have f2: "float_of example_python ''20.00'' = Some (Fin 20)" by code_simp
  have f3: "float_of example_python ''not available'' = None" by code_simp
  have av: "div_of example_python (sum_of example_python [Fin 10, Fin 20]) 2 = Fin 15"
    by (simp add: example_python_def)
  have na: "float_of example_python
              (number_text example_python
                 (dict_get_default [(''price'', ''not available'')] ''price'' [])) = None"
    by (simp add: dict_get_default_def dict_get_def three_prices_clean f3)
  have x: "\<not> py_in ''to'' ''10.00 ''" by code_simp
  have cl: "clean_price ''$10.00 to $20.00'' = ''10.00 '' @ ''to'' @ '' 20.00''" by code_simp
  have fl: "float_of example_python (str_strip example_python ''10.00 '') = Some (Fin 10)"
    by code_simp
  from r sel f1 f2 f3 av have 1: "price_statistics example_python [''price'']
        [[(''price'', ''$10.00'')], [(''price'', ''$20.00'')], [(''price'', ''not available'')]]
      = Some (Fin 15, Fin 10, Fin 20)"
    by blast
  from r na have 2: "price_statistics example_python [''price'']
        ([[(''price'', ''$10.00'')]] @ [(''price'', ''not available'')] # [[(''price'', ''$20.00'')]])
      = price_statistics example_python [''price'']
          ([[(''price'', ''$10.00'')]] @ [[(''price'', ''$20.00'')]])"
    by blast
  from r x cl
  have 3: "number_text example_python ''$10.00 to $20.00'' = str_strip example_python ''10.00 ''"
    by blast
  from sel f1 f2 f3 av 1 2 x cl 3 fl show ?thesis by (simp only: simp_thms)
qed

text \<open>
  C7 as stated fails where the price is not among the selected fields: on the three
  prices nothing is printed.
\<close>

theorem price_statistics_not_selected_counterexample:
  "price_statistics example_python [''title'']
     [[(''price'', ''$10.00'')], [(''price'', ''$20.00'')], [(''price'', ''not available'')]]
   = None"
  by (simp add: price_statistics_def)

section \<open>The query parameters\<close>

lemma add_bound_falsy:
  "add_bound key None params = params"
  "add_bound key (Some (PyInt 0)) params = params"
  "add_bound key (Some (PyFloat (Fin 0))) params = params"
  by (simp_all add: add_bound_def)

lemma dict_get_Nil: "dict_get [] k = None"
  by (simp add: dict_get_def)

lemma dict_get_Cons: "dict_get ((k', v) # d) k = (if k' = k then Some v else dict_get d k)"
  by (simp add: dict_get_def)

lemma dict_get_add_bound_other:
  "k \<noteq> key \<Longrightarrow> dict_get (add_bound key bound params) k = dict_get params k"
  by (simp add: add_bound_def dict_get_dict_set split: option.splits)

text \<open>
  C10. A lower price bound of 0, as an integer or as a float, leaves the parameters as
  no lower bound does: \<open>_udlo\<close> is not among them, the URL of every page is the same, and
  so is the whole run. The same holds for the upper bound and \<open>_udhi\<close>.
\<close>

theorem zero_price_bound_omitted:
  "search_params query sort_by (Some (PyInt 0)) max_price =
     search_params query sort_by None max_price
   \<and> search_params query sort_by (Some (PyFloat (Fin 0))) max_price =
     search_params query sort_by None max_price
   \<and> search_params query sort_by min_price (Some (PyInt 0)) =
     search_params query sort_by min_price None
   \<and> search_params query sort_by min_price (Some (PyFloat (Fin 0))) =
     search_params query sort_by min_price None
   \<and> dict_get (search_params query sort_by (Some (PyFloat (Fin 0))) max_price) ''_udlo'' = None
   \<and> dict_get (search_params query sort_by min_price (Some (PyFloat (Fin 0)))) ''_udhi'' = None
   \<and> page_url w query sort_by (Some (PyFloat (Fin 0))) max_price page =
     page_url w query sort_by None max_price page
   \<and> page_url w query sort_by min_price (Some (PyFloat (Fin 0))) page =
     page_url w query sort_by min_price None page
   \<and> search self w query max_pages sort_by (Some (PyFloat (Fin 0))) max_price =
     search self w query max_pages sort_by None max_price
   \<and> search self w query max_pages sort_by min_price (Some (PyFloat (Fin 0))) =
     search self w query max_pages sort_by min_price None"
proof -
  have lo: "dict_get (search_params query sort_by None max_price) ''_udlo'' = None"
    by (simp add: search_params_def add_bound_falsy dict_get_add_bound_other dict_get_Nil
        dict_get_Cons)
  have hi: "dict_get (search_params query sort_by min_price None) ''_udhi'' = None"
    by (simp add: search_params_def add_bound_falsy dict_get_add_bound_other dict_get_Nil
        dict_get_Cons)
  show ?thesis
    using lo hi by (simp add: search_params_def page_url_def search_def add_bound_falsy)
qed

section \<open>Results of \<open>search\<close>\<close>

lemma dict_set_twice: "dict_set (dict_set d k a) k b = dict_set d k b"
  by (induction d k a rule: dict_set.induct) simp_all

lemma fetch_fails_no_products: "fetch_fails answer \<Longrightarrow> scrape_page fs clock answer = []"
  by (cases answer) (simp_all add: fetch_fails_def scrape_page_def)

lemma pages_of_steps:
  "concat (map fetched_page (concat (map (\<lambda>p. [Fetch p (u p), Sleep]) xs))) = xs"
  by (induction xs) simp_all

lemma no_warning_in_steps:
  "Warning \<notin> set (concat (map (\<lambda>p. [Fetch p (u p), Sleep]) xs))"
  by (induction xs) simp_all

text \<open>
  The loop from a page after the first: it never stops early. \<open>params0\<close> is the dictionary
  before the loop; writing \<open>_pgn\<close> into the loop's dictionary gives what writing it into
  \<open>params0\<close> gives.
\<close>

lemma search_loop_later:
  assumes "1 < page" and "\<And>v. dict_set params ''_pgn'' v = dict_set params0 ''_pgn'' v"
  shows "search_loop self w params page n r =
           \<lparr>all_products = all_products r @
              concat (map (\<lambda>p. page_products self w p
                 (base_url @ ''?'' @ urlencode w (dict_set params0 ''_pgn'' (PyInt (int p)))))
                [page..<page + n]),
            trace = trace r @
              concat (map (\<lambda>p. [Fetch p
                 (base_url @ ''?'' @ urlencode w (dict_set params0 ''_pgn'' (PyInt (int p)))),
                 Sleep]) [page..<page + n])\<rparr>"
  using assms
proof (induction n arbitrary: params page r)
  case 0
  then show ?case by simp
next
  case (Suc n)
  let ?u = "base_url @ ''?'' @ urlencode w (dict_set params0 ''_pgn'' (PyInt (int page)))"
  let ?r = "\<lparr>all_products = all_products r @ page_products self w page ?u,
             trace = trace r @ [Fetch page ?u, Sleep]\<rparr>"
  have step: "search_loop self w params page (Suc n) r =
                search_loop self w (dict_set params0 ''_pgn'' (PyInt (int page))) (Suc page) n ?r"
    using Suc.prems by (simp add: Let_def)
  have rest: "search_loop self w (dict_set params0 ''_pgn'' (PyInt (int page))) (Suc page) n ?r =
           \<lparr>all_products = all_products ?r @
              concat (map (\<lambda>p. page_products self w p
                 (base_url @ ''?'' @ urlencode w (dict_set params0 ''_pgn'' (PyInt (int p)))))
                [Suc page..<Suc page + n]),
            trace = trace ?r @
              concat (map (\<lambda>p. [Fetch p
                 (base_url @ ''?'' @ urlencode w (dict_set params0 ''_pgn'' (PyInt (int p)))),
                 Sleep]) [Suc page..<Suc page + n])\<rparr>"
    by (rule Suc.IH) (use Suc.prems(1) in \<open>simp_all add: dict_set_twice\<close>)
  have upt: "[page..<page + Suc n] = page # [Suc page..<Suc page + n]"
    by (simp add: upt_conv_Cons)
  show ?case
    unfolding step rest upt by simp
qed

lemma search_eq:
  "search self w query max_pages sort_by min_price max_price =
     (if nat max_pages = 0 then \<lparr>all_products = [], trace = []\<rparr>
      else if page_records self w query sort_by min_price max_price 1 = [] then
        \<lparr>all_products = [],
         trace = [Fetch 1 (page_url w query sort_by min_price max_price 1), Warning] @
           (if debug_mode self
            then [Diagnose (page_url w query sort_by min_price max_price 1)] else [])\<rparr>
      else
        \<lparr>all_products =
           concat (map (page_records self w query sort_by min_price max_price)
                     [1..<Suc (nat max_pages)]),
         trace =
           concat (map (\<lambda>p. [Fetch p (page_url w query sort_by min_price max_price p), Sleep])
                     [1..<Suc (nat max_pages)])\<rparr>)"
proof (cases "nat max_pages")
  case 0
  then show ?thesis by (simp add: search_def)
next
  case (Suc n)
  let ?params0 = "search_params query sort_by min_price max_price"
  have later: "search_loop self w (dict_set ?params0 ''_pgn'' (PyInt (int 1))) (Suc 1) n r =
           \<lparr>all_products = all_products r @
              concat (map (page_records self w query sort_by min_price max_price)
                [Suc 1..<Suc 1 + n]),
            trace = trace r @
              concat (map (\<lambda>p. [Fetch p (page_url w query sort_by min_price max_price p), Sleep])
                [Suc 1..<Suc 1 + n])\<rparr>" for r
    unfolding page_records_def page_url_def
    by (rule search_loop_later) (simp_all add: dict_set_twice)
  have upt: "[1..<Suc (Suc n)] = 1 # [Suc 1..<Suc 1 + n]"
    by (simp add: upt_conv_Cons)
  show ?thesis
    unfolding search_def Suc search_loop.simps Let_def later upt
    by (simp add: page_records_def page_url_def)
qed

lemma pages_attempted_search:
  "pages_attempted (search self w query max_pages sort_by min_price max_price) =
     (if nat max_pages = 0 then []
      else if page_records self w query sort_by min_price max_price 1 = [] then [1]
      else [1..<Suc (nat max_pages)])"
  unfolding search_eq pages_attempted_def
  by (simp add: pages_of_steps del: upt_Suc)

lemma stopped_early_search:
  "stopped_early (search self w query max_pages sort_by min_price max_price) \<longleftrightarrow>
     nat max_pages \<noteq> 0 \<and> page_records self w query sort_by min_price max_price 1 = []"
  unfolding search_eq stopped_early_def
  by (simp add: no_warning_in_steps del: upt_Suc)

lemma all_products_search:
  "all_products (search self w query max_pages sort_by min_price max_price) =
     (if nat max_pages = 0 \<or> page_records self w query sort_by min_price max_price 1 = []
      then []
      else concat (map (page_records self w query sort_by min_price max_price)
                     [1..<Suc (nat max_pages)]))"
  unfolding search_eq by simp

lemma failed_page_no_records:
  "fetch_fails (page_answer w query sort_by min_price max_price p) \<Longrightarrow>
     page_records self w query sort_by min_price max_price p = []"
  by (simp add: page_records_def page_products_def page_answer_def fetch_fails_no_products)

lemma upt_split: "a \<le> p \<Longrightarrow> p < b \<Longrightarrow> [a..<b] = [a..<p] @ p # [Suc p..<b]"
proof -
  assume "a \<le> p" and "p < b"
  then have "[a..<b] = [a..<p] @ [p..<b]"
    using upt_add_eq_append [of a p "b - p"] by simp
  with \<open>p < b\<close> show ?thesis by (simp add: upt_conv_Cons)
qed

lemma later_page_attempted:
  assumes "2 \<le> p"
    and "p \<in> set (pages_attempted (search self w query max_pages sort_by min_price max_price))"
  shows "nat max_pages \<noteq> 0" and "page_records self w query sort_by min_price max_price 1 \<noteq> []"
    and "p < Suc (nat max_pages)"
  using assms by (auto simp: pages_attempted_search split: if_splits)

text \<open>
  C2. With at least one page asked for, a first page without products, because its request
  failed or because no listing gave a product, ends the run: the first page is the only
  one requested, the warning is printed, and no product is returned.
\<close>

theorem first_page_empty_stops:
  assumes "1 \<le> max_pages"
    and "fetch_fails (page_answer w query sort_by min_price max_price 1) \<or>
         page_records self w query sort_by min_price max_price 1 = []"
  shows "pages_attempted (search self w query max_pages sort_by min_price max_price) = [1]
     \<and> stopped_early (search self w query max_pages sort_by min_price max_price)
     \<and> all_products (search self w query max_pages sort_by min_price max_price) = []"
proof -
  have "page_records self w query sort_by min_price max_price 1 = []"
    using assms(2) failed_page_no_records by blast
  moreover have "nat max_pages \<noteq> 0"
    using assms(1) by simp
  ultimately show ?thesis
    by (simp add: pages_attempted_search stopped_early_search all_products_search)
qed

theorem first_page_empty_stops_witness:
  "(1::int) \<le> 3
   \<and> fetch_fails (page_answer failed_first_page ''laptop'' ''best_match'' None None 1)
   \<and> pages_attempted
        (search example_scraper failed_first_page ''laptop'' 3 ''best_match'' None None) = [1]
   \<and> stopped_early
        (search example_scraper failed_first_page ''laptop'' 3 ''best_match'' None None)
   \<and> all_products
        (search example_scraper failed_first_page ''laptop'' 3 ''best_match'' None None) = []"
proof -
  have m: "(1::int) \<le> 3" by simp
  have f: "fetch_fails (page_answer failed_first_page ''laptop'' ''best_match'' None None 1)"
    by (simp add: fetch_fails_def page_answer_def failed_first_page_def example_world_def)
  from first_page_empty_stops [OF m disjI1, OF f, of example_scraper] m f
  show ?thesis by simp
qed

text \<open>
  C3. A requested page after the first that gives no product does not end the run: the
  pages requested are all of 1 to \<open>max_pages\<close>, the one after it among them, and no early
  stop is reported.
\<close>

theorem later_empty_page_continues:
  assumes "2 \<le> p"
    and "p \<in> set (pages_attempted (search self w query max_pages sort_by min_price max_price))"
    and "page_records self w query sort_by min_price max_price p = []"
  shows "pages_attempted (search self w query max_pages sort_by min_price max_price) =
           [1..<Suc (nat max_pages)]
     \<and> \<not> stopped_early (search self w query max_pages sort_by min_price max_price)
     \<and> (p < nat max_pages \<longrightarrow>
          Suc p \<in> set (pages_attempted (search self w query max_pages sort_by min_price max_price)))"
  using later_page_attempted [OF assms(1,2)]
  by (simp add: pages_attempted_search stopped_early_search del: upt_Suc)

theorem later_empty_page_continues_witness:
  "(2::nat) \<le> 2
   \<and> 2 \<in> set (pages_attempted
        (search example_scraper empty_second_page ''laptop'' 3 ''best_match'' None None))
   \<and> page_records example_scraper empty_second_page ''laptop'' ''best_match'' None None 2 = []
   \<and> pages_attempted
        (search example_scraper empty_second_page ''laptop'' 3 ''best_match'' None None)
      = [1, 2, 3]
   \<and> \<not> stopped_early
        (search example_scraper empty_second_page ''laptop'' 3 ''best_match'' None None)"
proof -
  let ?run = "search example_scraper empty_second_page ''laptop'' 3 ''best_match'' None None"
  have p: "(2::nat) \<le> 2" by simp
  have a: "pages_attempted ?run = [1, 2, 3]" by code_simp
  have e: "page_records example_scraper empty_second_page ''laptop'' ''best_match'' None None 2
             = []"
    by code_simp
  have i: "2 \<in> set (pages_attempted ?run)"
    unfolding a by simp
  from later_empty_page_continues [OF p i e] have "\<not> stopped_early ?run"
    by (rule conjunct1 [OF conjunct2])
  with p i e a show ?thesis by (simp only: simp_thms)
qed

text \<open>
  C1, as the code has it. A requested page whose request fails (\<open>session.get\<close> raises, or
  the status is one of 400 to 599, as 403 and 429 are) gives no product. If it is the
  first page the run ends there, with the warning and without products. If it is a later
  page the run goes on to \<open>max_pages\<close> and reports no early stop; the products returned
  are those of the pages before it followed by those of the pages after it. The run holds
  the products and what was requested and printed, and no reason of a stop.
\<close>

theorem failed_fetch_effect:
  assumes "p \<in> set (pages_attempted (search self w query max_pages sort_by min_price max_price))"
    and "fetch_fails (page_answer w query sort_by min_price max_price p)"
  shows "page_records self w query sort_by min_price max_price p = []
     \<and> (p = 1 \<longrightarrow>
          pages_attempted (search self w query max_pages sort_by min_price max_price) = [1]
          \<and> stopped_early (search self w query max_pages sort_by min_price max_price)
          \<and> all_products (search self w query max_pages sort_by min_price max_price) = [])
     \<and> (p \<noteq> 1 \<longrightarrow>
          pages_attempted (search self w query max_pages sort_by min_price max_price) =
            [1..<Suc (nat max_pages)]
          \<and> \<not> stopped_early (search self w query max_pages sort_by min_price max_price)
          \<and> all_products (search self w query max_pages sort_by min_price max_price) =
              concat (map (page_records self w query sort_by min_price max_price) [1..<p]) @
              concat (map (page_records self w query sort_by min_price max_price)
                        [Suc p..<Suc (nat max_pages)]))"
proof -
  let ?run = "search self w query max_pages sort_by min_price max_price"
  let ?rec = "page_records self w query sort_by min_price max_price"
  have none: "?rec p = []"
    using assms(2) by (rule failed_page_no_records)
  have first: "pages_attempted ?run = [1] \<and> stopped_early ?run \<and> all_products ?run = []"
    if "p = 1"
  proof -
    have "nat max_pages \<noteq> 0"
      using assms(1) by (auto simp: pages_attempted_search split: if_splits)
    with none that show ?thesis
      by (simp add: pages_attempted_search stopped_early_search all_products_search)
  qed
  have later: "pages_attempted ?run = [1..<Suc (nat max_pages)] \<and> \<not> stopped_early ?run
      \<and> all_products ?run =
          concat (map ?rec [1..<p]) @ concat (map ?rec [Suc p..<Suc (nat max_pages)])"
    if "p \<noteq> 1"
  proof -
    have "p \<noteq> 0"
      using assms(1) by (auto simp: pages_attempted_search split: if_splits)
    with that have two: "2 \<le> p" by simp
    note l = later_page_attempted [OF two assms(1)]
    have "[1..<Suc (nat max_pages)] = [1..<p] @ p # [Suc p..<Suc (nat max_pages)]"
      using two l(3) by (intro upt_split) simp_all
    then have "concat (map ?rec [1..<Suc (nat max_pages)]) =
                 concat (map ?rec [1..<p]) @ concat (map ?rec [Suc p..<Suc (nat max_pages)])"
      using none by simp
    with l show ?thesis
      by (simp add: pages_attempted_search stopped_early_search all_products_search
          del: upt_Suc)
  qed
  from none first later show ?thesis by blast
qed

theorem failed_fetch_effect_witness:
  "2 \<in> set (pages_attempted
        (search example_scraper blocked_second_page ''laptop'' 3 ''best_match'' None None))
   \<and> fetch_fails (page_answer blocked_second_page ''laptop'' ''best_match'' None None 2)
   \<and> page_records example_scraper blocked_second_page ''laptop'' ''best_match'' None None 2 = []
   \<and> \<not> stopped_early
        (search example_scraper blocked_second_page ''laptop'' 3 ''best_match'' None None)
   \<and> all_products
        (search example_scraper blocked_second_page ''laptop'' 3 ''best_match'' None None)
      = [[(''title'', ''Laptop''), (''price'', ''$10.00''),
          (''scraped_at'', ''2024-05-01 10:00:00'')],
         [(''title'', ''Laptop''), (''price'', ''$10.00''),
          (''scraped_at'', ''2024-05-01 10:00:00'')]]"
proof -
  let ?run = "search example_scraper blocked_second_page ''laptop'' 3 ''best_match'' None None"
  have a: "pages_attempted ?run = [1, 2, 3]" by code_simp
  have i: "2 \<in> set (pages_attempted ?run)"
    unfolding a by simp
  have f: "fetch_fails (page_answer blocked_second_page ''laptop'' ''best_match'' None None 2)"
    by (simp add: fetch_fails_def page_answer_def blocked_second_page_def example_world_def
        rate_limited_def raises_for_status_def)
  have prods: "all_products ?run
      = [[(''title'', ''Laptop''), (''price'', ''$10.00''),
          (''scraped_at'', ''2024-05-01 10:00:00'')],
         [(''title'', ''Laptop''), (''price'', ''$10.00''),
          (''scraped_at'', ''2024-05-01 10:00:00'')]]"
    by code_simp
  note t = failed_fetch_effect [OF i f]
  from t have none:
    "page_records example_scraper blocked_second_page ''laptop'' ''best_match'' None None 2 = []"
    by (rule conjunct1)
  from t have "\<not> stopped_early ?run" by simp
  with i f none prods show ?thesis by (simp only: simp_thms)
qed

text \<open>
  C1 as stated fails on a later page: with three pages asked for and the second one rate
  limited (status 429), the third page is requested all the same, and no early stop is
  reported.
\<close>

theorem failed_fetch_continues_counterexample:
  "page_answer blocked_second_page ''laptop'' ''best_match'' None None 2 = rate_limited
   \<and> fetch_fails rate_limited
   \<and> pages_attempted
        (search example_scraper blocked_second_page ''laptop'' 3 ''best_match'' None None)
      = [1, 2, 3]
   \<and> \<not> stopped_early
        (search example_scraper blocked_second_page ''laptop'' 3 ''best_match'' None None)"
proof -
  let ?run = "search example_scraper blocked_second_page ''laptop'' 3 ''best_match'' None None"
  have a: "page_answer blocked_second_page ''laptop'' ''best_match'' None None 2 = rate_limited"
    by (simp add: page_answer_def blocked_second_page_def example_world_def)
  have f: "fetch_fails rate_limited"
    by (simp add: fetch_fails_def rate_limited_def raises_for_status_def)
  have p: "pages_attempted ?run = [1, 2, 3]" by code_simp
  have s: "\<not> stopped_early ?run" by code_simp
  from a f p s show ?thesis by (simp only: simp_thms)
qed

end
